theory Spec2Isabelle
  imports Main "HOL-Library.Word"
begin

section \<open>Token generation\<close>

text \<open>
  The source (\<^verbatim>\<open>generateToken\<close>):
  \<^verbatim>\<open>randomBytes(length).toString('base64').slice(0, length).replace(/[^a-zA-Z0-9]/g, '')\<close>.
  The random source is an input of the model: \<open>rnd i\<close> is the \<open>i\<close>-th byte that the next
  call of \<^verbatim>\<open>randomBytes\<close> delivers, so that \<^verbatim>\<open>randomBytes(n)\<close> always has
  exactly \<open>n\<close> bytes.
\<close>

type_synonym byte = "8 word"

definition randomBytes :: "(nat \<Rightarrow> byte) \<Rightarrow> nat \<Rightarrow> byte list" where
  "randomBytes rnd n = map rnd [0..<n]"

definition b64alphabet :: string where
  "b64alphabet = ''ABCDEFGHIJKLMNOPQRSTUVWXYZabcdefghijklmnopqrstuvwxyz0123456789+/''"

definition b64char :: "nat \<Rightarrow> char" where
  "b64char i = b64alphabet ! (i mod 64)"

text \<open>
  Standard base64 with padding, as \<^verbatim>\<open>Buffer.toString('base64')\<close> produces it: three
  bytes give four characters; a rest of one byte gives two characters and \<open>==\<close>, a rest
  of two bytes three characters and \<open>=\<close>.
\<close>

fun base64 :: "byte list \<Rightarrow> string" where
  "base64 [] = []"
| "base64 [a] =
     (let n = unat a * 16
      in [b64char (n div 64), b64char n, CHR ''='', CHR ''=''])"
| "base64 [a, b] =
     (let n = (unat a * 256 + unat b) * 4
      in [b64char (n div 4096), b64char (n div 64), b64char n, CHR ''=''])"
| "base64 (a # b # c # rest) =
     (let n = unat a * 65536 + unat b * 256 + unat c
      in [b64char (n div 262144), b64char (n div 4096), b64char (n div 64), b64char n]
         @ base64 rest)"

text \<open>The complement of the character class \<^verbatim>\<open>[^a-zA-Z0-9]\<close>.\<close>

definition isAlnum :: "char \<Rightarrow> bool" where
  "isAlnum ch =
     (let k = (of_char ch :: nat)
      in (97 \<le> k \<and> k \<le> 122) \<or> (65 \<le> k \<and> k \<le> 90) \<or> (48 \<le> k \<and> k \<le> 57))"

definition generateToken :: "(nat \<Rightarrow> byte) \<Rightarrow> nat \<Rightarrow> string" where
  "generateToken rnd len = filter isAlnum (take len (base64 (randomBytes rnd len)))"

section \<open>Error codes and messages\<close>

text \<open>
  \<^verbatim>\<open>enum AuthErrorCode\<close> is a numeric TypeScript enum: every member has its position as
  value (\<open>ordinal\<close>) and \<^verbatim>\<open>AuthErrorCode[code]\<close> gives the member's name back
  (\<open>codeName\<close>).
\<close>

datatype AuthErrorCode =
    PASSWORD_AUTH_FAILURE
  | PASSWORD_AUTH_IDENTITY_NOT_FOUND
  | PASSWORD_AUTH_SECRET_NOT_SET
  | PASSWORD_AUTH_MULTIPLE_IDENTITY_MATCHES
  | PASSWORD_AUTH_SECRET_MISMATCH
  | AUTH_TOKEN_REQUEST_IDENTITY_NOT_FOUND
  | AUTH_TOKEN_REQUEST_MULTIPLE_IDENTITY_MATCHES
  | AUTH_TOKEN_REDEMPTION_INVALID_TOKEN
  | AUTH_TOKEN_REDEMPTION_TOKEN_EXPIRED
  | AUTH_TOKEN_REDEMPTION_TOKEN_REDEEMED
  | AUTH_TOKEN_INTERNAL_ERROR
  | CUSTOM_ERROR

fun ordinal :: "AuthErrorCode \<Rightarrow> nat" where
  "ordinal PASSWORD_AUTH_FAILURE = 0"
| "ordinal PASSWORD_AUTH_IDENTITY_NOT_FOUND = 1"
| "ordinal PASSWORD_AUTH_SECRET_NOT_SET = 2"
| "ordinal PASSWORD_AUTH_MULTIPLE_IDENTITY_MATCHES = 3"
| "ordinal PASSWORD_AUTH_SECRET_MISMATCH = 4"
| "ordinal AUTH_TOKEN_REQUEST_IDENTITY_NOT_FOUND = 5"
| "ordinal AUTH_TOKEN_REQUEST_MULTIPLE_IDENTITY_MATCHES = 6"
| "ordinal AUTH_TOKEN_REDEMPTION_INVALID_TOKEN = 7"
| "ordinal AUTH_TOKEN_REDEMPTION_TOKEN_EXPIRED = 8"
| "ordinal AUTH_TOKEN_REDEMPTION_TOKEN_REDEEMED = 9"
| "ordinal AUTH_TOKEN_INTERNAL_ERROR = 10"
| "ordinal CUSTOM_ERROR = 11"

fun codeName :: "AuthErrorCode \<Rightarrow> string" where
  "codeName PASSWORD_AUTH_FAILURE = ''PASSWORD_AUTH_FAILURE''"
| "codeName PASSWORD_AUTH_IDENTITY_NOT_FOUND = ''PASSWORD_AUTH_IDENTITY_NOT_FOUND''"
| "codeName PASSWORD_AUTH_SECRET_NOT_SET = ''PASSWORD_AUTH_SECRET_NOT_SET''"
| "codeName PASSWORD_AUTH_MULTIPLE_IDENTITY_MATCHES = ''PASSWORD_AUTH_MULTIPLE_IDENTITY_MATCHES''"
| "codeName PASSWORD_AUTH_SECRET_MISMATCH = ''PASSWORD_AUTH_SECRET_MISMATCH''"
| "codeName AUTH_TOKEN_REQUEST_IDENTITY_NOT_FOUND = ''AUTH_TOKEN_REQUEST_IDENTITY_NOT_FOUND''"
| "codeName AUTH_TOKEN_REQUEST_MULTIPLE_IDENTITY_MATCHES =
     ''AUTH_TOKEN_REQUEST_MULTIPLE_IDENTITY_MATCHES''"
| "codeName AUTH_TOKEN_REDEMPTION_INVALID_TOKEN = ''AUTH_TOKEN_REDEMPTION_INVALID_TOKEN''"
| "codeName AUTH_TOKEN_REDEMPTION_TOKEN_EXPIRED = ''AUTH_TOKEN_REDEMPTION_TOKEN_EXPIRED''"
| "codeName AUTH_TOKEN_REDEMPTION_TOKEN_REDEEMED = ''AUTH_TOKEN_REDEMPTION_TOKEN_REDEEMED''"
| "codeName AUTH_TOKEN_INTERNAL_ERROR = ''AUTH_TOKEN_INTERNAL_ERROR''"
| "codeName CUSTOM_ERROR = ''CUSTOM_ERROR''"

text \<open>
  \<^verbatim>\<open>getErrorMessage\<close>: the \<^verbatim>\<open>switch\<close> has no case for \<^verbatim>\<open>CUSTOM_ERROR\<close>, which
  falls through to the final \<^verbatim>\<open>return\<close>.
\<close>

fun getErrorMessage :: "string \<Rightarrow> string \<Rightarrow> string \<Rightarrow> string \<Rightarrow> AuthErrorCode \<Rightarrow> string" where
  "getErrorMessage idf sf itemSingular itemPlural PASSWORD_AUTH_FAILURE =
     ''Authentication failed''"
| "getErrorMessage idf sf itemSingular itemPlural PASSWORD_AUTH_IDENTITY_NOT_FOUND =
     ''The '' @ idf @ '' value provided didn't identify any '' @ itemPlural"
| "getErrorMessage idf sf itemSingular itemPlural PASSWORD_AUTH_SECRET_NOT_SET =
     ''The '' @ itemSingular @ '' identified has no '' @ sf
       @ '' set so can not be authenticated''"
| "getErrorMessage idf sf itemSingular itemPlural PASSWORD_AUTH_MULTIPLE_IDENTITY_MATCHES =
     ''The '' @ idf @ '' value provided identified more than one '' @ itemSingular"
| "getErrorMessage idf sf itemSingular itemPlural PASSWORD_AUTH_SECRET_MISMATCH =
     ''The '' @ sf @ '' provided is incorrect''"
| "getErrorMessage idf sf itemSingular itemPlural AUTH_TOKEN_REQUEST_IDENTITY_NOT_FOUND =
     ''The '' @ idf @ '' value provided didn't identify any '' @ itemPlural"
| "getErrorMessage idf sf itemSingular itemPlural AUTH_TOKEN_REQUEST_MULTIPLE_IDENTITY_MATCHES =
     ''The '' @ idf @ '' value provided identified more than one '' @ itemSingular"
| "getErrorMessage idf sf itemSingular itemPlural AUTH_TOKEN_REDEMPTION_INVALID_TOKEN =
     ''The token provided is invalid''"
| "getErrorMessage idf sf itemSingular itemPlural AUTH_TOKEN_REDEMPTION_TOKEN_EXPIRED =
     ''The token provided has expired''"
| "getErrorMessage idf sf itemSingular itemPlural AUTH_TOKEN_REDEMPTION_TOKEN_REDEEMED =
     ''The token provided has already been redeemed''"
| "getErrorMessage idf sf itemSingular itemPlural AUTH_TOKEN_INTERNAL_ERROR =
     ''An unexpected error condition was encountered while creating or redeeming an auth token''"
| "getErrorMessage idf sf itemSingular itemPlural CUSTOM_ERROR =
     ''No error message defined''"

section \<open>Items, lists and the request context\<close>

text \<open>
  A stored value of a field: \<^verbatim>\<open>null\<close>, a string, or a point in time (milliseconds since
  the epoch; the source hands \<^verbatim>\<open>new Date().toISOString()\<close> to the storage, which keeps
  it in a date-time field). A field that an item does not have reads as \<^verbatim>\<open>undefined\<close>,
  here \<open>None\<close>.
\<close>

type_synonym timestamp = int

datatype fieldval = VNull | VStr string | VTime timestamp

record item =
  item_id :: string
  props :: "(string \<times> fieldval) list"

text \<open>\<^verbatim>\<open>item[path]\<close>; the id is a property of the item like any other.\<close>

definition getField :: "item \<Rightarrow> string \<Rightarrow> fieldval option" where
  "getField it path = (if path = ''id'' then Some (VStr (item_id it)) else map_of (props it) path)"

fun setField :: "string \<Rightarrow> fieldval \<Rightarrow> (string \<times> fieldval) list \<Rightarrow> (string \<times> fieldval) list" where
  "setField k v [] = [(k, v)]"
| "setField k v ((k', v') # rest) =
     (if k = k' then (k, v) # rest else (k', v') # setField k v rest)"

text \<open>
  JavaScript's \<^verbatim>\<open>!v\<close> on a stored value: \<^verbatim>\<open>undefined\<close>, \<^verbatim>\<open>null\<close> and the empty
  string are falsy, every other string and every date are truthy.
\<close>

fun falsy :: "fieldval option \<Rightarrow> bool" where
  "falsy None = True"
| "falsy (Some VNull) = True"
| "falsy (Some (VStr s)) = (s = [])"
| "falsy (Some (VTime t)) = False"

text \<open>
  The secret field's implementation (\<^verbatim>\<open>list.fieldsByPath[secretField]\<close>): hashing and
  the comparison of a plaintext with a stored hash are capabilities of the host.
\<close>

record fieldInstance =
  generateHash :: "string \<Rightarrow> string"
  compare :: "string \<Rightarrow> fieldval option \<Rightarrow> bool"

record klist =
  adapterItems :: "item list"
  fieldsByPath :: "string \<Rightarrow> fieldInstance"
  singular :: string
  plural :: string

text \<open>
  Modelled from the spec: the storage adapter's \<^verbatim>\<open>find\<close> is not part of the source;
  the spec has it return all records whose identity field equals the given value (exact,
  case-sensitive match), in storage order.
\<close>

definition adapter_find :: "klist \<Rightarrow> string \<Rightarrow> string \<Rightarrow> item list" where
  "adapter_find l path v = filter (\<lambda>it. getField it path = Some (VStr v)) (adapterItems l)"

record gqlError =
  stack :: "string option"
  message :: string

text \<open>
  The one GraphQL operation the source sends:
  \<^verbatim>\<open>mutation { updateUser(id: $id, data: { ... }) { id } }\<close>, executed in a context made by
  \<^verbatim>\<open>createContext({ skipAccessControl: true })\<close>.
\<close>

record gqlRequest =
  skipAccessControl :: bool
  mutationName :: string
  targetId :: string
  data :: "(string \<times> fieldval) list"

datatype event =
    HashGenerated string
  | SecretCompared string "fieldval option"
  | GraphQLExecuted gqlRequest
  | ConsoleError string
  | SessionStarted string string
  | TokenSent string string string string

text \<open>
  The request context \<^verbatim>\<open>ctx\<close>: the lists of the host by key, and what the environment
  supplies during the request: the random bytes, the clock, the session tokens that
  \<^verbatim>\<open>startSession\<close> hands out, and the errors the storage raises on a write (none when it
  is healthy). \<open>trace\<close> records the calls to the outside in order.
\<close>

record ctx =
  keystone_lists :: "string \<rightharpoonup> klist"
  trace :: "event list"
  randomSource :: "nat \<Rightarrow> byte"
  now :: timestamp
  sessionTokens :: "string \<Rightarrow> string \<Rightarrow> string"
  storageFault :: "gqlError list"

definition emit :: "event \<Rightarrow> ctx \<Rightarrow> ctx" where
  "emit e c = c\<lparr>trace := trace c @ [e]\<rparr>"

text \<open>
  The storage's update of the record with a given id: each field of the data is set on
  the record, replacing the value it had. It is the write of \<open>executeGraphQL\<close> below.
\<close>

definition applyData :: "(string \<times> fieldval) list \<Rightarrow> item \<Rightarrow> item" where
  "applyData d it = it\<lparr>props := foldl (\<lambda>fs kv. setField (fst kv) (snd kv) fs) (props it) d\<rparr>"

definition updateById :: "string \<Rightarrow> (string \<times> fieldval) list \<Rightarrow> klist \<Rightarrow> klist" where
  "updateById i d l =
     l\<lparr>adapterItems := map (\<lambda>it. if item_id it = i then applyData d it else it) (adapterItems l)\<rparr>"

text \<open>
  Modelled from the spec: the host's \<^verbatim>\<open>executeGraphQL\<close> is not part of the source. The
  spec has it as the storage's update by id under elevated privilege; the mutation
  \<^verbatim>\<open>update<Key>\<close> is the host's update of the list with that key. A failing storage
  returns its errors and writes nothing; a request without the elevated privilege is
  refused, as the actor is not authenticated; an unknown list or id is an error. Without
  errors the result's \<^verbatim>\<open>errors\<close> is \<^verbatim>\<open>undefined\<close>.
\<close>

definition executeGraphQL :: "ctx \<Rightarrow> gqlRequest \<Rightarrow> gqlError list option \<times> ctx" where
  "executeGraphQL c r =
     (let c1 = emit (GraphQLExecuted r) c;
          key = drop 6 (mutationName r)
      in if storageFault c \<noteq> [] then (Some (storageFault c), c1)
         else if \<not> skipAccessControl r then
           (Some [\<lparr>stack = None, message = ''You do not have access to this resource''\<rparr>], c1)
         else if take 6 (mutationName r) \<noteq> ''update'' then
           (Some [\<lparr>stack = None, message = ''Unknown mutation''\<rparr>], c1)
         else
           (case keystone_lists c key of
              None \<Rightarrow> (Some [\<lparr>stack = None, message = ''Unknown mutation''\<rparr>], c1)
            | Some l \<Rightarrow>
                if targetId r \<in> set (map item_id (adapterItems l))
                then (None, c1\<lparr>keystone_lists := (keystone_lists c)(key \<mapsto> updateById (targetId r) (data r) l)\<rparr>)
                else (Some [\<lparr>stack = None, message = ''Unable to find item to update''\<rparr>], c1)))"

text \<open>
  Modelled from the spec: \<^verbatim>\<open>ctx.startSession({ listKey, itemId })\<close> is the host's; the
  spec has it issue a session for a list key and an item id and return the session's
  token.
\<close>

definition startSession :: "string \<Rightarrow> string \<Rightarrow> ctx \<Rightarrow> string \<times> ctx" where
  "startSession lk iid c = (sessionTokens c lk iid, emit (SessionStarted lk iid) c)"

section \<open>The schema extension\<close>

text \<open>
  The arguments of \<^verbatim>\<open>getExtendGraphQLSchema\<close>. Of \<^verbatim>\<open>gqlNames\<close> only the two type names
  that reach a payload are kept. A \<^verbatim>\<open>sendToken\<close> callback is the caller's code: given
  the item id, the identity and the token it either resolves or throws (rejects), and the
  resolvers await it without catching anything. A callback that is not configured is
  \<open>None\<close>: \<^verbatim>\<open>passwordResetLink?.sendToken\<close> makes no call then, and the default of
  \<^verbatim>\<open>magicAuthLink\<close> is a function that does nothing.
\<close>

datatype sendOutcome = Resolves | Rejects

type_synonym SendTokenFn = "string \<Rightarrow> string \<Rightarrow> string \<Rightarrow> sendOutcome"

record config =
  listKey :: string
  identityField :: string
  secretField :: string
  protectIdentities :: bool
  ItemAuthenticationWithPasswordSuccess :: string
  ItemAuthenticationWithPasswordFailure :: string
  passwordResetLink :: "SendTokenFn option"
  magicAuthLink :: "SendTokenFn option"

datatype attemptResult = AttemptSuccess item | AttemptFailure AuthErrorCode

datatype tokenResult = TokenSuccess string string | TokenFailure "AuthErrorCode option"

text \<open>
  \<^verbatim>\<open>attemptAuthentication(args, list)\<close>. The calls to the secret field are recorded in
  the trace, which is passed through. \<open>items ! 0\<close> is \<^verbatim>\<open>items[0]\<close>; after the
  classification it is read only when there is exactly one item.
\<close>

definition attemptAuthentication ::
  "config \<Rightarrow> (string \<Rightarrow> string) \<Rightarrow> klist \<Rightarrow> event list \<Rightarrow> attemptResult \<times> event list" where
  "attemptAuthentication cfg args l tr =
     (let identity = args (identityField cfg);
          canidatePlaintext = args (secretField cfg);
          secretFieldInstance = fieldsByPath l (secretField cfg);
          items = adapter_find l (identityField cfg) identity;
          specificCode =
            (if length items = 0 then Some PASSWORD_AUTH_IDENTITY_NOT_FOUND
             else if length items = 1 \<and> falsy (getField (items ! 0) (secretField cfg))
               then Some PASSWORD_AUTH_SECRET_NOT_SET
             else if length items > 1 then Some PASSWORD_AUTH_MULTIPLE_IDENTITY_MATCHES
             else None)
      in case specificCode of
           Some sc \<Rightarrow>
             (AttemptFailure (if protectIdentities cfg then PASSWORD_AUTH_FAILURE else sc),
              if protectIdentities cfg
              then tr @ [HashGenerated ''simulated-password-to-counter-timing-attack'']
              else tr)
         | None \<Rightarrow>
             (let it = items ! 0;
                  isMatch = compare secretFieldInstance canidatePlaintext
                              (getField it (secretField cfg));
                  tr1 = tr @ [SecretCompared canidatePlaintext (getField it (secretField cfg))]
              in if \<not> isMatch
                 then (AttemptFailure
                         (if protectIdentities cfg then PASSWORD_AUTH_FAILURE
                          else PASSWORD_AUTH_SECRET_MISMATCH), tr1)
                 else (AttemptSuccess it, tr1)))"

text \<open>
  \<^verbatim>\<open>console.error(errors[0] && (errors[0].stack || errors[0].message))\<close>: the stack
  when there is a non-empty one, the message otherwise.
\<close>

definition errorDetail :: "gqlError \<Rightarrow> string" where
  "errorDetail e = (case stack e of None \<Rightarrow> message e | Some s \<Rightarrow> if s = [] then message e else s)"

text \<open>The mutation that \<^verbatim>\<open>updateAuthToken\<close> sends, with its variables filled in.\<close>

definition tokenMutation :: "string \<Rightarrow> string \<Rightarrow> string \<Rightarrow> timestamp \<Rightarrow> gqlRequest" where
  "tokenMutation tokenType i token t =
     \<lparr>skipAccessControl = True,
      mutationName = ''updateUser'',
      targetId = i,
      data = [(tokenType @ ''Token'', VStr token),
              (tokenType @ ''IssuedAt'', VTime t),
              (tokenType @ ''RedeemedAt'', VNull)]\<rparr>"

text \<open>\<^verbatim>\<open>updateAuthToken(tokenType, identity, list, ctx)\<close>.\<close>

definition updateAuthToken ::
  "config \<Rightarrow> string \<Rightarrow> string \<Rightarrow> klist \<Rightarrow> ctx \<Rightarrow> tokenResult \<times> ctx" where
  "updateAuthToken cfg tokenType identity l c =
     (let items = adapter_find l (identityField cfg) identity;
          specificCode =
            (if length items = 0 then Some AUTH_TOKEN_REQUEST_IDENTITY_NOT_FOUND
             else if length items > 1 then Some AUTH_TOKEN_REQUEST_MULTIPLE_IDENTITY_MATCHES
             else None)
      in case specificCode of
           Some sc \<Rightarrow> (TokenFailure (if protectIdentities cfg then None else Some sc), c)
         | None \<Rightarrow>
             (let it = items ! 0;
                  token = generateToken (randomSource c) 20;
                  (errors, c1) = executeGraphQL c (tokenMutation tokenType (item_id it) token (now c))
              in case errors of
                   None \<Rightarrow> (TokenSuccess (item_id it) token, c1)
                 | Some es \<Rightarrow>
                     if length es > 0
                     then (TokenFailure (Some AUTH_TOKEN_INTERNAL_ERROR),
                           emit (ConsoleError (errorDetail (es ! 0))) c1)
                     else (TokenSuccess (item_id it) token, c1)))"

section \<open>Resolvers\<close>

text \<open>
  A resolver returns its payload, or fails: with a \<^verbatim>\<open>TypeError\<close> when
  \<^verbatim>\<open>ctx.keystone.lists[listKey]\<close> is \<^verbatim>\<open>undefined\<close> and a property of it is read, and
  with what the awaited \<^verbatim>\<open>sendToken\<close> callback throws when that rejects.
\<close>

datatype jsError = TypeError | SendTokenRejected

datatype authPayload =
    PasswordSuccess string string item
  | PasswordFailure string string string

text \<open>The payload of the two token mutations: \<^verbatim>\<open>{}\<close> or \<^verbatim>\<open>{ code, message }\<close>.\<close>

record sendPayload =
  payload_code :: "string option"
  payload_message :: "string option"

definition emptyPayload :: sendPayload where
  "emptyPayload = \<lparr>payload_code = None, payload_message = None\<rparr>"

definition authenticateItemWithPassword ::
  "config \<Rightarrow> (string \<Rightarrow> string) \<Rightarrow> ctx \<Rightarrow> (jsError + authPayload) \<times> ctx" where
  "authenticateItemWithPassword cfg args c =
     (case keystone_lists c (listKey cfg) of
        None \<Rightarrow> (Inl TypeError, c)
      | Some l \<Rightarrow>
          (let (result, tr) = attemptAuthentication cfg args l (trace c);
               c1 = c\<lparr>trace := tr\<rparr>
           in case result of
                AttemptFailure cd \<Rightarrow>
                  (Inr (PasswordFailure (ItemAuthenticationWithPasswordFailure cfg) (codeName cd)
                          (getErrorMessage (identityField cfg) (secretField cfg)
                             (singular l) (plural l) cd)), c1)
              | AttemptSuccess it \<Rightarrow>
                  (let (token, c2) = startSession ''User'' (item_id it) c1
                   in (Inr (PasswordSuccess (ItemAuthenticationWithPasswordSuccess cfg) token it),
                       c2))))"

text \<open>
  The two token mutations. \<^verbatim>\<open>result.code\<close> is tested for truthiness: a code is truthy
  unless its number is 0.
\<close>

definition sendItemPasswordResetLink ::
  "config \<Rightarrow> (string \<Rightarrow> string) \<Rightarrow> ctx \<Rightarrow> (jsError + sendPayload) \<times> ctx" where
  "sendItemPasswordResetLink cfg args c =
     (case keystone_lists c (listKey cfg) of
        None \<Rightarrow> (Inl TypeError, c)
      | Some l \<Rightarrow>
          (let identity = args (identityField cfg);
               (result, c1) = updateAuthToken cfg ''passwordReset'' identity l c
           in case result of
                TokenSuccess i token \<Rightarrow>
                  (case passwordResetLink cfg of
                     None \<Rightarrow> (Inr emptyPayload, c1)
                   | Some sendToken \<Rightarrow>
                       (case sendToken i identity token of
                          Resolves \<Rightarrow>
                            (Inr emptyPayload, emit (TokenSent ''passwordReset'' i identity token) c1)
                        | Rejects \<Rightarrow>
                            (Inl SendTokenRejected,
                             emit (TokenSent ''passwordReset'' i identity token) c1)))
              | TokenFailure None \<Rightarrow> (Inr emptyPayload, c1)
              | TokenFailure (Some cd) \<Rightarrow>
                  if ordinal cd \<noteq> 0
                  then (Inr \<lparr>payload_code = Some (codeName cd),
                             payload_message =
                               Some (getErrorMessage (identityField cfg) (secretField cfg)
                                       (singular l) (plural l) cd)\<rparr>, c1)
                  else (Inr emptyPayload, c1)))"

definition sendItemMagicAuthLink ::
  "config \<Rightarrow> (string \<Rightarrow> string) \<Rightarrow> ctx \<Rightarrow> (jsError + sendPayload) \<times> ctx" where
  "sendItemMagicAuthLink cfg args c =
     (case keystone_lists c (listKey cfg) of
        None \<Rightarrow> (Inl TypeError, c)
      | Some l \<Rightarrow>
          (let identity = args (identityField cfg);
               (result, c1) = updateAuthToken cfg ''magicAuth'' identity l c
           in case result of
                TokenSuccess i token \<Rightarrow>
                  (case magicAuthLink cfg of
                     None \<Rightarrow> (Inr emptyPayload, c1)
                   | Some sendToken \<Rightarrow>
                       (case sendToken i identity token of
                          Resolves \<Rightarrow>
                            (Inr emptyPayload, emit (TokenSent ''magicAuth'' i identity token) c1)
                        | Rejects \<Rightarrow>
                            (Inl SendTokenRejected,
                             emit (TokenSent ''magicAuth'' i identity token) c1)))
              | TokenFailure None \<Rightarrow> (Inr emptyPayload, c1)
              | TokenFailure (Some cd) \<Rightarrow>
                  if ordinal cd \<noteq> 0
                  then (Inr \<lparr>payload_code = Some (codeName cd),
                             payload_message =
                               Some (getErrorMessage (identityField cfg) (secretField cfg)
                                       (singular l) (plural l) cd)\<rparr>, c1)
                  else (Inr emptyPayload, c1)))"

text \<open>
  The two mutations differ in the token type and the callback only; their common shape,
  for the proofs.
\<close>

definition sendItemLink ::
  "string \<Rightarrow> SendTokenFn option \<Rightarrow> config \<Rightarrow> (string \<Rightarrow> string) \<Rightarrow> ctx
   \<Rightarrow> (jsError + sendPayload) \<times> ctx" where
  "sendItemLink tokenType callback cfg args c =
     (case keystone_lists c (listKey cfg) of
        None \<Rightarrow> (Inl TypeError, c)
      | Some l \<Rightarrow>
          (let identity = args (identityField cfg);
               (result, c1) = updateAuthToken cfg tokenType identity l c
           in case result of
                TokenSuccess i token \<Rightarrow>
                  (case callback of
                     None \<Rightarrow> (Inr emptyPayload, c1)
                   | Some sendToken \<Rightarrow>
                       (case sendToken i identity token of
                          Resolves \<Rightarrow>
                            (Inr emptyPayload, emit (TokenSent tokenType i identity token) c1)
                        | Rejects \<Rightarrow>
                            (Inl SendTokenRejected,
                             emit (TokenSent tokenType i identity token) c1)))
              | TokenFailure None \<Rightarrow> (Inr emptyPayload, c1)
              | TokenFailure (Some cd) \<Rightarrow>
                  if ordinal cd \<noteq> 0
                  then (Inr \<lparr>payload_code = Some (codeName cd),
                             payload_message =
                               Some (getErrorMessage (identityField cfg) (secretField cfg)
                                       (singular l) (plural l) cd)\<rparr>, c1)
                  else (Inr emptyPayload, c1)))"

text \<open>
  The errors of the storage write that a token request for \<open>identity\<close> makes; none when
  the identity does not match exactly one record, as no write is made then.
\<close>

definition writeErrors :: "config \<Rightarrow> string \<Rightarrow> string \<Rightarrow> klist \<Rightarrow> ctx \<Rightarrow> gqlError list" where
  "writeErrors cfg tokenType identity l c =
     (case adapter_find l (identityField cfg) identity of
        [it] \<Rightarrow>
          (case fst (executeGraphQL c
                  (tokenMutation tokenType (item_id it) (generateToken (randomSource c) 20) (now c))) of
             None \<Rightarrow> []
           | Some es \<Rightarrow> es)
      | _ \<Rightarrow> [])"

text \<open>
  Whether the callback of a token request for \<open>identity\<close> rejects: it is called, after a
  write without errors, with the id of the one record that the identity matches and the
  generated token, and not at all when the identity matches no or several records.
\<close>

definition deliveryRejects :: "SendTokenFn option \<Rightarrow> config \<Rightarrow> string \<Rightarrow> klist \<Rightarrow> ctx \<Rightarrow> bool" where
  "deliveryRejects callback cfg identity l c =
     (case callback of
        None \<Rightarrow> False
      | Some sendToken \<Rightarrow>
          (case adapter_find l (identityField cfg) identity of
             [it] \<Rightarrow> sendToken (item_id it) identity (generateToken (randomSource c) 20) = Rejects
           | _ \<Rightarrow> False))"

definition internalErrorPayload :: sendPayload where
  "internalErrorPayload =
     \<lparr>payload_code = Some ''AUTH_TOKEN_INTERNAL_ERROR'',
      payload_message = Some ''An unexpected error condition was encountered while creating or redeeming an auth token''\<rparr>"

section \<open>Token redemption\<close>

text \<open>
  Modelled from the spec: the source has no operation that redeems a token. It declares
  the three redemption error codes with their messages, and a token request stores
  \<^verbatim>\<open>{type}Token\<close>, \<^verbatim>\<open>{type}IssuedAt\<close> and a cleared \<^verbatim>\<open>{type}RedeemedAt\<close>. The spec:
  a token is valid iff it matches the stored value, \<^verbatim>\<open>RedeemedAt\<close> is unset, and
  \<^verbatim>\<open>now - IssuedAt\<close> is at most \<^verbatim>\<open>tokensValidForMins\<close>; the violations are
  \<open>AUTH_TOKEN_REDEMPTION_INVALID_TOKEN\<close>, \<open>AUTH_TOKEN_REDEMPTION_TOKEN_REDEEMED\<close> and
  \<open>AUTH_TOKEN_REDEMPTION_TOKEN_EXPIRED\<close>; a successful redemption sets
  \<^verbatim>\<open>RedeemedAt = now\<close>. The three conditions are tested in the order in which the spec
  lists them. Times are in milliseconds; a record without an issue time has no valid
  token.
\<close>

datatype redeemResult = RedeemSuccess | RedeemFailure AuthErrorCode

definition unset :: "fieldval option \<Rightarrow> bool" where
  "unset v = (v = None \<or> v = Some VNull)"

definition redeemToken ::
  "nat \<Rightarrow> string \<Rightarrow> string \<Rightarrow> timestamp \<Rightarrow> item \<Rightarrow> redeemResult \<times> item" where
  "redeemToken tokensValidForMins tokenType token t it =
     (if getField it (tokenType @ ''Token'') \<noteq> Some (VStr token)
      then (RedeemFailure AUTH_TOKEN_REDEMPTION_INVALID_TOKEN, it)
      else if \<not> unset (getField it (tokenType @ ''RedeemedAt''))
      then (RedeemFailure AUTH_TOKEN_REDEMPTION_TOKEN_REDEEMED, it)
      else
        (case getField it (tokenType @ ''IssuedAt'') of
           Some (VTime issued) \<Rightarrow>
             if t - issued \<le> int tokensValidForMins * 60000
             then (RedeemSuccess, applyData [(tokenType @ ''RedeemedAt'', VTime t)] it)
             else (RedeemFailure AUTH_TOKEN_REDEMPTION_TOKEN_EXPIRED, it)
         | _ \<Rightarrow> (RedeemFailure AUTH_TOKEN_REDEMPTION_INVALID_TOKEN, it)))"

text \<open>A sequence of redemption attempts (token, time) on one record, in order.\<close>

fun redeemAll ::
  "nat \<Rightarrow> string \<Rightarrow> (string \<times> timestamp) list \<Rightarrow> item \<Rightarrow> redeemResult list \<times> item" where
  "redeemAll m tokenType [] it = ([], it)"
| "redeemAll m tokenType (a # rest) it =
     (let (r, it1) = redeemToken m tokenType (fst a) (snd a) it;
          (rs, it2) = redeemAll m tokenType rest it1
      in (r # rs, it2))"

section \<open>A small installation, for concrete runs\<close>

text \<open>
  A toy secret field (the hash of \<open>p\<close> is \<open>hash:p\<close>), four stored people, of whom two
  share an address and one has no password, and a context whose random bytes are all 0.
\<close>

definition exampleSecretField :: fieldInstance where
  "exampleSecretField =
     \<lparr>generateHash = (\<lambda>p. ''hash:'' @ p),
      compare = (\<lambda>p h. h = Some (VStr (''hash:'' @ p)))\<rparr>"

definition alice :: item where
  "alice = \<lparr>item_id = ''1'',
            props = [(''email'', VStr ''a@x.com''), (''password'', VStr ''hash:correct'')]\<rparr>"

definition bob :: item where
  "bob = \<lparr>item_id = ''2'',
          props = [(''email'', VStr ''b@x.com''), (''password'', VStr ''hash:pw'')]\<rparr>"

definition bob2 :: item where
  "bob2 = \<lparr>item_id = ''3'',
           props = [(''email'', VStr ''b@x.com''), (''password'', VStr ''hash:pw2'')]\<rparr>"

definition carol :: item where
  "carol = \<lparr>item_id = ''4'', props = [(''email'', VStr ''c@x.com''), (''password'', VNull)]\<rparr>"

definition dave :: item where
  "dave = \<lparr>item_id = ''1'',
           props = [(''email'', VStr ''d@y.org''), (''password'', VStr ''hash:other'')]\<rparr>"

definition exampleList :: "item list \<Rightarrow> klist" where
  "exampleList its =
     \<lparr>adapterItems = its, fieldsByPath = (\<lambda>_. exampleSecretField),
      singular = ''Person'', plural = ''People''\<rparr>"

definition people :: klist where
  "people = exampleList [alice, bob, bob2, carol]"

definition exampleConfig :: "string \<Rightarrow> bool \<Rightarrow> config" where
  "exampleConfig key protect =
     \<lparr>listKey = key, identityField = ''email'', secretField = ''password'',
      protectIdentities = protect,
      ItemAuthenticationWithPasswordSuccess = key @ ''AuthenticationWithPasswordSuccess'',
      ItemAuthenticationWithPasswordFailure = key @ ''AuthenticationWithPasswordFailure'',
      passwordResetLink = Some (\<lambda>i identity token. Resolves),
      magicAuthLink = Some (\<lambda>i identity token. Resolves)\<rparr>"

text \<open>The same configuration with callbacks whose delivery fails.\<close>

definition rejectingConfig :: "string \<Rightarrow> bool \<Rightarrow> config" where
  "rejectingConfig key protect =
     (exampleConfig key protect)
       \<lparr>passwordResetLink := Some (\<lambda>i identity token. Rejects),
        magicAuthLink := Some (\<lambda>i identity token. Rejects)\<rparr>"

definition exampleArgs :: "string \<Rightarrow> string \<Rightarrow> string \<Rightarrow> string" where
  "exampleArgs email pw k = (if k = ''email'' then email else if k = ''password'' then pw else [])"

definition exampleCtx :: "(string \<rightharpoonup> klist) \<Rightarrow> gqlError list \<Rightarrow> ctx" where
  "exampleCtx ls fault =
     \<lparr>keystone_lists = ls, trace = [], randomSource = (\<lambda>_. 0), now = 1600000000000,
      sessionTokens = (\<lambda>lk iid. ''session:'' @ lk @ '':'' @ iid), storageFault = fault\<rparr>"

text \<open>A context whose storage fails on every write.\<close>

definition brokenCtx :: ctx where
  "brokenCtx =
     exampleCtx [''User'' \<mapsto> people]
       [\<lparr>stack = Some ''Error: connection lost at Adapter.update'',
         message = ''connection lost''\<rparr>]"

text \<open>A context whose storage fails with an error that has no stack.\<close>

definition stacklessCtx :: ctx where
  "stacklessCtx =
     exampleCtx [''User'' \<mapsto> people] [\<lparr>stack = None, message = ''connection lost''\<rparr>]"

text \<open>
  An installation that authenticates the list \<open>Person\<close> and also has a list \<open>User\<close>,
  whose only record happens to have the id of a person.
\<close>

definition personCtx :: ctx where
  "personCtx = exampleCtx [''Person'' \<mapsto> people, ''User'' \<mapsto> exampleList [dave]] []"

text \<open>The record of \<open>alice\<close> after a magic-link token has been stored on it.\<close>

definition aliceWithToken :: item where
  "aliceWithToken =
     applyData (data (tokenMutation ''magicAuth'' ''1'' ''AAAAAAAAAAAAAAAAAAAA'' 1600000000000))
       alice"

section \<open>Properties of token generation\<close>

lemma length_base64: "length (base64 bs) = 4 * ((length bs + 2) div 3)"
  by (induction bs rule: base64.induct) (simp_all add: Let_def, arith)

lemma length_randomBytes: "length (randomBytes rnd n) = n"
  by (simp add: randomBytes_def)

lemma length_sliced_base64: "length (take 20 (base64 (randomBytes rnd 20))) = 20"
  by (simp add: length_base64 length_randomBytes)

lemma base64_ff3: "base64 (255 # 255 # 255 # rest) = ''////'' @ base64 rest"
  by (simp add: b64char_def b64alphabet_def)

lemma base64_ff2: "base64 [255, 255] = ''//8=''"
  by (simp add: b64char_def b64alphabet_def)

lemma randomBytes_all_ff: "randomBytes (\<lambda>_. 255) 20 = replicate 20 255"
  by (simp add: randomBytes_def map_replicate_const)

lemma replicate_20_ff:
  "replicate 20 (255 :: byte)
   = 255 # 255 # 255 # 255 # 255 # 255 # 255 # 255 # 255 # 255 # 255 # 255
     # 255 # 255 # 255 # 255 # 255 # 255 # [255, 255]"
  by (simp add: numeral_eq_Suc)

lemma base64_all_ff: "base64 (replicate 20 255) = ''////////////////////////'' @ ''//8=''"
  unfolding replicate_20_ff
  by (simp only: base64_ff3 base64_ff2 append.simps append_assoc)

lemma generateToken_all_ff: "generateToken (\<lambda>_. 255) 20 = []"
  by (simp add: generateToken_def randomBytes_all_ff base64_all_ff isAlnum_def)

text \<open>
  Claim C8. Every token that \<open>generateToken\<close> produces for the target length 20 consists
  of ASCII letters and digits only and has at most 20 characters; and there are outcomes
  of the random bytes for which the removal of the other characters leaves strictly
  fewer than 20 characters (the slice before the removal always has exactly 20, see
  \<open>length_sliced_base64\<close>).
\<close>

theorem generateToken_alnum_at_most_20:
  "(\<forall>rnd. list_all isAlnum (generateToken rnd 20) \<and> length (generateToken rnd 20) \<le> 20)
   \<and> (\<exists>rnd. length (generateToken rnd 20) < 20)"
proof -
  have a: "list_all isAlnum (generateToken rnd 20)" for rnd
    by (simp add: generateToken_def list_all_iff)
  have "length (generateToken rnd 20) \<le> length (take 20 (base64 (randomBytes rnd 20)))" for rnd
    unfolding generateToken_def by (rule length_filter_le)
  then have b: "length (generateToken rnd 20) \<le> 20" for rnd
    by (simp only: length_sliced_base64)
  have "length (generateToken (\<lambda>_. 255) 20) < 20"
    by (simp add: generateToken_all_ff)
  then have c: "\<exists>rnd. length (generateToken rnd 20) < 20"
    by (rule exI [where x = "\<lambda>_. 255"])
  from a b c show ?thesis by blast
qed

section \<open>Password authentication\<close>

lemmas example_defs = exampleSecretField_def alice_def bob_def bob2_def carol_def dave_def
  exampleList_def people_def exampleConfig_def exampleArgs_def exampleCtx_def

lemma find_nobody: "adapter_find people ''email'' ''nobody@x.com'' = []"
  by (simp add: adapter_find_def getField_def example_defs)

lemma find_alice: "adapter_find people ''email'' ''a@x.com'' = [alice]"
  by (simp add: adapter_find_def getField_def example_defs)

lemma find_bob: "adapter_find people ''email'' ''b@x.com'' = [bob, bob2]"
  by (simp add: adapter_find_def getField_def example_defs)

lemma find_carol: "adapter_find people ''email'' ''c@x.com'' = [carol]"
  by (simp add: adapter_find_def getField_def example_defs)

lemma exampleConfig_sel [simp]:
  "listKey (exampleConfig k p) = k"
  "identityField (exampleConfig k p) = ''email''"
  "secretField (exampleConfig k p) = ''password''"
  "protectIdentities (exampleConfig k p) = p"
  "passwordResetLink (exampleConfig k p) = Some (\<lambda>i identity token. Resolves)"
  "magicAuthLink (exampleConfig k p) = Some (\<lambda>i identity token. Resolves)"
  by (simp_all add: exampleConfig_def)

lemma exampleArgs_sel [simp]:
  "exampleArgs e p ''email'' = e"
  "exampleArgs e p ''password'' = p"
  by (simp_all add: exampleArgs_def)

lemma secret_alice: "getField alice ''password'' = Some (VStr ''hash:correct'')"
  by (simp add: getField_def alice_def)

lemma secret_carol: "getField carol ''password'' = Some VNull"
  by (simp add: getField_def carol_def)

lemma compare_people:
  "compare (fieldsByPath people f) p h = (h = Some (VStr (''hash:'' @ p)))"
  by (simp add: people_def exampleList_def exampleSecretField_def)

text \<open>
  Claim C1. When the identity lookup of \<open>attemptAuthentication\<close> returns no record, the
  result is the failure \<open>PASSWORD_AUTH_IDENTITY_NOT_FOUND\<close>; when it returns exactly one
  record whose secret is not set (the source's test \<^verbatim>\<open>!items[0][secretField]\<close>), it is
  \<open>PASSWORD_AUTH_SECRET_NOT_SET\<close>; when it returns two or more records, it is
  \<open>PASSWORD_AUTH_MULTIPLE_IDENTITY_MATCHES\<close>. With identity protection enabled the
  result is the failure \<open>PASSWORD_AUTH_FAILURE\<close> in all three cases.
\<close>

theorem attemptAuthentication_identity_failures:
  assumes "items = adapter_find l (identityField cfg) (args (identityField cfg))"
  shows "(items = [] \<longrightarrow>
            fst (attemptAuthentication cfg args l tr)
            = AttemptFailure (if protectIdentities cfg then PASSWORD_AUTH_FAILURE
                              else PASSWORD_AUTH_IDENTITY_NOT_FOUND))
       \<and> (\<forall>it. items = [it] \<and> falsy (getField it (secretField cfg)) \<longrightarrow>
            fst (attemptAuthentication cfg args l tr)
            = AttemptFailure (if protectIdentities cfg then PASSWORD_AUTH_FAILURE
                              else PASSWORD_AUTH_SECRET_NOT_SET))
       \<and> (2 \<le> length items \<longrightarrow>
            fst (attemptAuthentication cfg args l tr)
            = AttemptFailure (if protectIdentities cfg then PASSWORD_AUTH_FAILURE
                              else PASSWORD_AUTH_MULTIPLE_IDENTITY_MATCHES))"
  using assms by (auto simp: attemptAuthentication_def Let_def)

theorem attemptAuthentication_identity_failures_witness:
  "adapter_find people ''email'' ''nobody@x.com'' = []
   \<and> fst (attemptAuthentication (exampleConfig ''User'' False)
            (exampleArgs ''nobody@x.com'' ''pw'') people [])
     = AttemptFailure PASSWORD_AUTH_IDENTITY_NOT_FOUND
   \<and> adapter_find people ''email'' ''c@x.com'' = [carol]
   \<and> falsy (getField carol ''password'')
   \<and> fst (attemptAuthentication (exampleConfig ''User'' False)
            (exampleArgs ''c@x.com'' ''pw'') people [])
     = AttemptFailure PASSWORD_AUTH_SECRET_NOT_SET
   \<and> adapter_find people ''email'' ''b@x.com'' = [bob, bob2]
   \<and> fst (attemptAuthentication (exampleConfig ''User'' True)
            (exampleArgs ''b@x.com'' ''pw'') people [])
     = AttemptFailure PASSWORD_AUTH_FAILURE"
proof -
  have n: "[] = adapter_find people (identityField (exampleConfig ''User'' False))
                  (exampleArgs ''nobody@x.com'' ''pw'' (identityField (exampleConfig ''User'' False)))"
    by (simp add: find_nobody)
  have c: "[carol] = adapter_find people (identityField (exampleConfig ''User'' False))
                  (exampleArgs ''c@x.com'' ''pw'' (identityField (exampleConfig ''User'' False)))"
    by (simp add: find_carol)
  have b: "[bob, bob2] = adapter_find people (identityField (exampleConfig ''User'' True))
                  (exampleArgs ''b@x.com'' ''pw'' (identityField (exampleConfig ''User'' True)))"
    by (simp add: find_bob)
  have f: "falsy (getField carol ''password'')"
    by (simp add: secret_carol)
  from attemptAuthentication_identity_failures
         [where cfg = "exampleConfig ''User'' False" and l = people and tr = "[]"
            and args = "exampleArgs ''nobody@x.com'' ''pw''", OF n]
       attemptAuthentication_identity_failures
         [where cfg = "exampleConfig ''User'' False" and l = people and tr = "[]"
            and args = "exampleArgs ''c@x.com'' ''pw''", OF c]
       attemptAuthentication_identity_failures
         [where cfg = "exampleConfig ''User'' True" and l = people and tr = "[]"
            and args = "exampleArgs ''b@x.com'' ''pw''", OF b] f
  show ?thesis
    by (simp add: find_nobody find_carol find_bob)
qed

text \<open>
  Claim C2. When the identity lookup matches exactly one record and that record has a
  secret set (the source's test \<^verbatim>\<open>!items[0][secretField]\<close> is false), the result of
  \<open>attemptAuthentication\<close> is decided by the secret field's comparison of the supplied
  plaintext with the stored secret: success with the matched record when it succeeds,
  and otherwise the failure \<open>PASSWORD_AUTH_SECRET_MISMATCH\<close>, or \<open>PASSWORD_AUTH_FAILURE\<close>
  with identity protection enabled.
\<close>

theorem attemptAuthentication_secret_check:
  assumes "adapter_find l (identityField cfg) (args (identityField cfg)) = [it]"
    and "\<not> falsy (getField it (secretField cfg))"
  shows "fst (attemptAuthentication cfg args l tr)
         = (if compare (fieldsByPath l (secretField cfg)) (args (secretField cfg))
                 (getField it (secretField cfg))
            then AttemptSuccess it
            else AttemptFailure (if protectIdentities cfg then PASSWORD_AUTH_FAILURE
                                 else PASSWORD_AUTH_SECRET_MISMATCH))"
  using assms by (simp add: attemptAuthentication_def Let_def)

theorem attemptAuthentication_secret_check_witness:
  "adapter_find people ''email'' ''a@x.com'' = [alice]
   \<and> getField alice ''password'' = Some (VStr ''hash:correct'')
   \<and> fst (attemptAuthentication (exampleConfig ''User'' True)
            (exampleArgs ''a@x.com'' ''correct'') people []) = AttemptSuccess alice
   \<and> item_id alice = ''1''
   \<and> fst (attemptAuthentication (exampleConfig ''User'' False)
            (exampleArgs ''a@x.com'' ''wrong'') people [])
     = AttemptFailure PASSWORD_AUTH_SECRET_MISMATCH
   \<and> fst (attemptAuthentication (exampleConfig ''User'' True)
            (exampleArgs ''a@x.com'' ''wrong'') people [])
     = AttemptFailure PASSWORD_AUTH_FAILURE"
proof -
  have a: "adapter_find people (identityField (exampleConfig ''User'' p))
             (exampleArgs ''a@x.com'' pw (identityField (exampleConfig ''User'' p))) = [alice]"
    for p pw
    by (simp add: find_alice)
  have s: "\<not> falsy (getField alice (secretField (exampleConfig ''User'' p)))" for p
    by (simp add: secret_alice)
  from attemptAuthentication_secret_check
         [where cfg = "exampleConfig ''User'' True" and l = people and tr = "[]"
            and args = "exampleArgs ''a@x.com'' ''correct''", OF a s]
       attemptAuthentication_secret_check
         [where cfg = "exampleConfig ''User'' False" and l = people and tr = "[]"
            and args = "exampleArgs ''a@x.com'' ''wrong''", OF a s]
       attemptAuthentication_secret_check
         [where cfg = "exampleConfig ''User'' True" and l = people and tr = "[]"
            and args = "exampleArgs ''a@x.com'' ''wrong''", OF a s]
  show ?thesis
    by (simp add: find_alice secret_alice compare_people) (simp add: alice_def)
qed

text \<open>
  Claim C5. Whenever the identity classification of \<open>attemptAuthentication\<close> fires (no
  match, one match without a secret, or several matches): with identity protection
  enabled, a hash of the fixed string \<open>simulated-password-to-counter-timing-attack\<close> is
  generated before the call returns, and the result is the generic failure
  \<open>PASSWORD_AUTH_FAILURE\<close>; with identity protection disabled the result is the failure
  with the specific code of the classification (and no hash is generated).
\<close>

theorem attemptAuthentication_dummy_hash:
  assumes "items = adapter_find l (identityField cfg) (args (identityField cfg))"
    and "items = []
         \<or> (length items = 1 \<and> falsy (getField (items ! 0) (secretField cfg)))
         \<or> length items > 1"
  shows "(protectIdentities cfg \<longrightarrow>
            attemptAuthentication cfg args l tr
            = (AttemptFailure PASSWORD_AUTH_FAILURE,
               tr @ [HashGenerated ''simulated-password-to-counter-timing-attack'']))
       \<and> (\<not> protectIdentities cfg \<longrightarrow>
            attemptAuthentication cfg args l tr
            = (AttemptFailure
                 (if items = [] then PASSWORD_AUTH_IDENTITY_NOT_FOUND
                  else if length items = 1 then PASSWORD_AUTH_SECRET_NOT_SET
                  else PASSWORD_AUTH_MULTIPLE_IDENTITY_MATCHES), tr))"
  using assms by (auto simp: attemptAuthentication_def Let_def)

theorem attemptAuthentication_dummy_hash_witness:
  "adapter_find people ''email'' ''c@x.com'' = [carol]
   \<and> falsy (getField carol ''password'')
   \<and> attemptAuthentication (exampleConfig ''User'' True)
        (exampleArgs ''c@x.com'' ''pw'') people []
     = (AttemptFailure PASSWORD_AUTH_FAILURE,
        [HashGenerated ''simulated-password-to-counter-timing-attack''])
   \<and> attemptAuthentication (exampleConfig ''User'' False)
        (exampleArgs ''c@x.com'' ''pw'') people []
     = (AttemptFailure PASSWORD_AUTH_SECRET_NOT_SET, [])"
proof -
  have c: "[carol] = adapter_find people (identityField (exampleConfig ''User'' p))
             (exampleArgs ''c@x.com'' ''pw'' (identityField (exampleConfig ''User'' p)))" for p
    by (simp add: find_carol)
  have f: "[carol] = []
         \<or> (length [carol] = 1 \<and> falsy (getField ([carol] ! 0) (secretField (exampleConfig ''User'' p))))
         \<or> length [carol] > 1" for p
    by (simp add: secret_carol)
  from attemptAuthentication_dummy_hash
         [where cfg = "exampleConfig ''User'' True" and l = people and tr = "[]"
            and args = "exampleArgs ''c@x.com'' ''pw''", OF c f]
       attemptAuthentication_dummy_hash
         [where cfg = "exampleConfig ''User'' False" and l = people and tr = "[]"
            and args = "exampleArgs ''c@x.com'' ''pw''", OF c f]
  show ?thesis
    by (simp add: find_carol secret_carol)
qed

section \<open>Token requests\<close>

lemma sendItemPasswordResetLink_eq:
  "sendItemPasswordResetLink cfg args c
   = sendItemLink ''passwordReset'' (passwordResetLink cfg) cfg args c"
  by (simp add: sendItemPasswordResetLink_def sendItemLink_def)

lemma sendItemMagicAuthLink_eq:
  "sendItemMagicAuthLink cfg args c = sendItemLink ''magicAuth'' (magicAuthLink cfg) cfg args c"
  by (simp add: sendItemMagicAuthLink_def sendItemLink_def)

lemma updateAuthToken_unique:
  assumes "adapter_find l (identityField cfg) identity = [it]"
  shows "updateAuthToken cfg tokenType identity l c
         = (let token = generateToken (randomSource c) 20;
                r = executeGraphQL c (tokenMutation tokenType (item_id it) token (now c))
            in case fst r of
                 None \<Rightarrow> (TokenSuccess (item_id it) token, snd r)
               | Some es \<Rightarrow>
                   if es = [] then (TokenSuccess (item_id it) token, snd r)
                   else (TokenFailure (Some AUTH_TOKEN_INTERNAL_ERROR),
                         emit (ConsoleError (errorDetail (es ! 0))) (snd r)))"
  using assms
  by (simp add: updateAuthToken_def Let_def split: prod.splits option.splits)

lemma trace_executeGraphQL: "trace (snd (executeGraphQL c r)) = trace c @ [GraphQLExecuted r]"
  by (simp add: executeGraphQL_def Let_def emit_def split: option.splits)

lemma executeGraphQL_fault:
  "storageFault c \<noteq> [] \<Longrightarrow> fst (executeGraphQL c r) = Some (storageFault c)"
  by (simp add: executeGraphQL_def Let_def)

text \<open>
  Claim C6. For a token request whose identity lookup matches no record the result is
  the failure \<open>AUTH_TOKEN_REQUEST_IDENTITY_NOT_FOUND\<close>, and for one that matches several
  records the failure \<open>AUTH_TOKEN_REQUEST_MULTIPLE_IDENTITY_MATCHES\<close>, when identity
  protection is disabled; when it is enabled the result is a failure without any code.
  The context is left as it was.
\<close>

theorem updateAuthToken_identity_failures:
  assumes "items = adapter_find l (identityField cfg) identity"
  shows "(items = [] \<longrightarrow>
            updateAuthToken cfg tokenType identity l c
            = (TokenFailure (if protectIdentities cfg then None
                             else Some AUTH_TOKEN_REQUEST_IDENTITY_NOT_FOUND), c))
       \<and> (2 \<le> length items \<longrightarrow>
            updateAuthToken cfg tokenType identity l c
            = (TokenFailure (if protectIdentities cfg then None
                             else Some AUTH_TOKEN_REQUEST_MULTIPLE_IDENTITY_MATCHES), c))"
  using assms by (auto simp: updateAuthToken_def Let_def)

theorem updateAuthToken_identity_failures_witness:
  "adapter_find people ''email'' ''nobody@x.com'' = []
   \<and> fst (updateAuthToken (exampleConfig ''User'' False) ''passwordReset'' ''nobody@x.com'' people
            (exampleCtx [''User'' \<mapsto> people] []))
     = TokenFailure (Some AUTH_TOKEN_REQUEST_IDENTITY_NOT_FOUND)
   \<and> fst (updateAuthToken (exampleConfig ''User'' True) ''passwordReset'' ''nobody@x.com'' people
            (exampleCtx [''User'' \<mapsto> people] []))
     = TokenFailure None
   \<and> adapter_find people ''email'' ''b@x.com'' = [bob, bob2]
   \<and> fst (updateAuthToken (exampleConfig ''User'' False) ''magicAuth'' ''b@x.com'' people
            (exampleCtx [''User'' \<mapsto> people] []))
     = TokenFailure (Some AUTH_TOKEN_REQUEST_MULTIPLE_IDENTITY_MATCHES)
   \<and> fst (updateAuthToken (exampleConfig ''User'' True) ''magicAuth'' ''b@x.com'' people
            (exampleCtx [''User'' \<mapsto> people] []))
     = TokenFailure None"
proof -
  have n: "[] = adapter_find people (identityField (exampleConfig ''User'' p)) ''nobody@x.com''"
    for p
    by (simp add: find_nobody)
  have b: "[bob, bob2] = adapter_find people (identityField (exampleConfig ''User'' p)) ''b@x.com''"
    for p
    by (simp add: find_bob)
  from updateAuthToken_identity_failures
         [where cfg = "exampleConfig ''User'' False" and tokenType = "''passwordReset''"
            and c = "exampleCtx [''User'' \<mapsto> people] []", OF n]
       updateAuthToken_identity_failures
         [where cfg = "exampleConfig ''User'' True" and tokenType = "''passwordReset''"
            and c = "exampleCtx [''User'' \<mapsto> people] []", OF n]
       updateAuthToken_identity_failures
         [where cfg = "exampleConfig ''User'' False" and tokenType = "''magicAuth''"
            and c = "exampleCtx [''User'' \<mapsto> people] []", OF b]
       updateAuthToken_identity_failures
         [where cfg = "exampleConfig ''User'' True" and tokenType = "''magicAuth''"
            and c = "exampleCtx [''User'' \<mapsto> people] []", OF b]
  show ?thesis
    by (simp add: find_nobody find_bob)
qed

text \<open>
  Claim C7. When the storage write of a token request fails (the host returns a
  non-empty list of errors), \<open>updateAuthToken\<close> returns the failure
  \<open>AUTH_TOKEN_INTERNAL_ERROR\<close> and writes the underlying error to the server's console:
  the stack of the first error when it has a non-empty one, and its message otherwise.
  The value it returns and the payload of the mutation are the same whatever the errors
  contain: the payload consists of the code's name and the fixed message of that code.
\<close>

theorem updateAuthToken_write_failure:
  assumes "keystone_lists c (listKey cfg) = Some l"
    and "adapter_find l (identityField cfg) (args (identityField cfg)) = [it]"
    and "fst (executeGraphQL c
               (tokenMutation tokenType (item_id it) (generateToken (randomSource c) 20) (now c)))
         = Some es"
    and "es \<noteq> []"
  shows "fst (updateAuthToken cfg tokenType (args (identityField cfg)) l c)
           = TokenFailure (Some AUTH_TOKEN_INTERNAL_ERROR)
       \<and> trace (snd (updateAuthToken cfg tokenType (args (identityField cfg)) l c))
           = trace c
             @ [GraphQLExecuted
                  (tokenMutation tokenType (item_id it) (generateToken (randomSource c) 20) (now c)),
                ConsoleError
                  (case stack (es ! 0) of
                     None \<Rightarrow> message (es ! 0)
                   | Some s \<Rightarrow> if s = [] then message (es ! 0) else s)]
       \<and> (tokenType = ''passwordReset'' \<longrightarrow>
            fst (sendItemPasswordResetLink cfg args c) = Inr internalErrorPayload)
       \<and> (tokenType = ''magicAuth'' \<longrightarrow>
            fst (sendItemMagicAuthLink cfg args c) = Inr internalErrorPayload)"
proof -
  let ?r = "tokenMutation tokenType (item_id it) (generateToken (randomSource c) 20) (now c)"
  let ?logged = "case stack (es ! 0) of
                   None \<Rightarrow> message (es ! 0)
                 | Some s \<Rightarrow> if s = [] then message (es ! 0) else s"
  have u: "updateAuthToken cfg tokenType (args (identityField cfg)) l c
           = (TokenFailure (Some AUTH_TOKEN_INTERNAL_ERROR),
              emit (ConsoleError ?logged) (snd (executeGraphQL c ?r)))"
    using assms(2-4) by (simp add: updateAuthToken_unique Let_def errorDetail_def)
  have s: "fst (sendItemLink tokenType callback cfg args c) = Inr internalErrorPayload"
    for callback
    using assms(1) by (simp add: sendItemLink_def u internalErrorPayload_def)
  have t: "trace (snd (updateAuthToken cfg tokenType (args (identityField cfg)) l c))
           = trace c @ [GraphQLExecuted ?r, ConsoleError ?logged]"
    by (simp add: u emit_def trace_executeGraphQL)
  from u s t show ?thesis
    by (auto simp: sendItemPasswordResetLink_eq sendItemMagicAuthLink_eq)
qed

lemma generateToken_zero: "generateToken (\<lambda>_. 0) 20 = ''AAAAAAAAAAAAAAAAAAAA''"
proof -
  have z3: "base64 (0 # 0 # 0 # rest) = ''AAAA'' @ base64 rest" for rest
    by (simp add: b64char_def b64alphabet_def)
  have z2: "base64 [0, 0] = ''AAA=''"
    by (simp add: b64char_def b64alphabet_def)
  have r: "randomBytes (\<lambda>_. 0) 20 = replicate 20 0"
    by (simp add: randomBytes_def map_replicate_const)
  have e: "replicate 20 (0 :: byte)
           = 0 # 0 # 0 # 0 # 0 # 0 # 0 # 0 # 0 # 0 # 0 # 0 # 0 # 0 # 0 # 0 # 0 # 0 # [0, 0]"
    by (simp add: numeral_eq_Suc)
  have "base64 (replicate 20 0) = ''AAAAAAAAAAAAAAAAAAAAAAAA'' @ ''AAA=''"
    unfolding e by (simp only: z3 z2 append.simps append_assoc)
  then show ?thesis
    by (simp add: generateToken_def r isAlnum_def)
qed

theorem updateAuthToken_write_failure_witness:
  "keystone_lists brokenCtx ''User'' = Some people
   \<and> adapter_find people ''email'' ''a@x.com'' = [alice]
   \<and> fst (executeGraphQL brokenCtx
            (tokenMutation ''passwordReset'' ''1'' ''AAAAAAAAAAAAAAAAAAAA'' 1600000000000))
     = Some [\<lparr>stack = Some ''Error: connection lost at Adapter.update'',
              message = ''connection lost''\<rparr>]
   \<and> fst (updateAuthToken (exampleConfig ''User'' False) ''passwordReset'' ''a@x.com'' people
            brokenCtx)
     = TokenFailure (Some AUTH_TOKEN_INTERNAL_ERROR)
   \<and> trace (snd (updateAuthToken (exampleConfig ''User'' False) ''passwordReset'' ''a@x.com''
                   people brokenCtx))
     = [GraphQLExecuted
          (tokenMutation ''passwordReset'' ''1'' ''AAAAAAAAAAAAAAAAAAAA'' 1600000000000),
        ConsoleError ''Error: connection lost at Adapter.update'']
   \<and> fst (sendItemPasswordResetLink (exampleConfig ''User'' False)
            (exampleArgs ''a@x.com'' []) brokenCtx)
     = Inr internalErrorPayload
   \<and> keystone_lists stacklessCtx ''User'' = Some people
   \<and> fst (executeGraphQL stacklessCtx
            (tokenMutation ''magicAuth'' ''1'' ''AAAAAAAAAAAAAAAAAAAA'' 1600000000000))
     = Some [\<lparr>stack = None, message = ''connection lost''\<rparr>]
   \<and> fst (updateAuthToken (exampleConfig ''User'' False) ''magicAuth'' ''a@x.com'' people
            stacklessCtx)
     = TokenFailure (Some AUTH_TOKEN_INTERNAL_ERROR)
   \<and> trace (snd (updateAuthToken (exampleConfig ''User'' False) ''magicAuth'' ''a@x.com''
                   people stacklessCtx))
     = [GraphQLExecuted
          (tokenMutation ''magicAuth'' ''1'' ''AAAAAAAAAAAAAAAAAAAA'' 1600000000000),
        ConsoleError ''connection lost'']
   \<and> fst (sendItemMagicAuthLink (exampleConfig ''User'' False)
            (exampleArgs ''a@x.com'' []) stacklessCtx)
     = Inr internalErrorPayload"
proof -
  let ?es = "[\<lparr>stack = Some ''Error: connection lost at Adapter.update'',
               message = ''connection lost''\<rparr>]"
  let ?es' = "[\<lparr>stack = None, message = ''connection lost''\<rparr>]"
  have l: "keystone_lists brokenCtx (listKey (exampleConfig ''User'' False)) = Some people"
    by (simp add: brokenCtx_def exampleCtx_def)
  have l': "keystone_lists stacklessCtx (listKey (exampleConfig ''User'' False)) = Some people"
    by (simp add: stacklessCtx_def exampleCtx_def)
  have a: "adapter_find people (identityField (exampleConfig ''User'' False))
             (exampleArgs ''a@x.com'' [] (identityField (exampleConfig ''User'' False))) = [alice]"
    by (simp add: find_alice)
  have e: "fst (executeGraphQL brokenCtx
                 (tokenMutation ''passwordReset'' (item_id alice)
                    (generateToken (randomSource brokenCtx) 20) (now brokenCtx))) = Some ?es"
    by (simp add: executeGraphQL_fault brokenCtx_def exampleCtx_def)
  have e': "fst (executeGraphQL stacklessCtx
                  (tokenMutation ''magicAuth'' (item_id alice)
                     (generateToken (randomSource stacklessCtx) 20) (now stacklessCtx)))
            = Some ?es'"
    by (simp add: executeGraphQL_fault stacklessCtx_def exampleCtx_def)
  have n: "?es \<noteq> []" and n': "?es' \<noteq> []"
    by simp_all
  have v: "item_id alice = ''1''" "randomSource brokenCtx = (\<lambda>_. 0)"
    "now brokenCtx = 1600000000000" "trace brokenCtx = []"
    "randomSource stacklessCtx = (\<lambda>_. 0)"
    "now stacklessCtx = 1600000000000" "trace stacklessCtx = []"
    by (simp_all add: alice_def brokenCtx_def stacklessCtx_def exampleCtx_def)
  from updateAuthToken_write_failure
         [where cfg = "exampleConfig ''User'' False" and args = "exampleArgs ''a@x.com'' []"
            and tokenType = "''passwordReset''", OF l a e n]
       updateAuthToken_write_failure
         [where cfg = "exampleConfig ''User'' False" and args = "exampleArgs ''a@x.com'' []"
            and tokenType = "''magicAuth''", OF l' a e' n']
       l l' a e e'
  show ?thesis
    by (simp add: v generateToken_zero)
qed

section \<open>The payload of a token request under identity protection\<close>

lemma rejectingConfig_sel [simp]:
  "listKey (rejectingConfig k p) = k"
  "identityField (rejectingConfig k p) = ''email''"
  "secretField (rejectingConfig k p) = ''password''"
  "protectIdentities (rejectingConfig k p) = p"
  "passwordResetLink (rejectingConfig k p) = Some (\<lambda>i identity token. Rejects)"
  "magicAuthLink (rejectingConfig k p) = Some (\<lambda>i identity token. Rejects)"
  by (simp_all add: rejectingConfig_def)

lemma sendItemLink_protected:
  assumes "protectIdentities cfg"
    and "keystone_lists d (listKey cfg) = Some k"
  shows "fst (sendItemLink tt cb cfg a d)
         = (if writeErrors cfg tt (a (identityField cfg)) k d \<noteq> [] then Inr internalErrorPayload
            else if deliveryRejects cb cfg (a (identityField cfg)) k d then Inl SendTokenRejected
            else Inr emptyPayload)"
proof (cases "adapter_find k (identityField cfg) (a (identityField cfg))")
  case Nil
  with assms show ?thesis
    by (simp add: sendItemLink_def updateAuthToken_def writeErrors_def deliveryRejects_def
          Let_def split: option.splits)
next
  case (Cons it rest)
  show ?thesis
  proof (cases rest)
    case Nil
    with Cons have u: "adapter_find k (identityField cfg) (a (identityField cfg)) = [it]"
      by simp
    from assms(2) show ?thesis
      by (simp add: sendItemLink_def updateAuthToken_unique [OF u] writeErrors_def
            deliveryRejects_def u Let_def internalErrorPayload_def
            split: option.splits sendOutcome.splits)
  next
    case (Cons it2 rest2)
    with \<open>adapter_find k (identityField cfg) (a (identityField cfg)) = it # rest\<close> assms
    show ?thesis
      by (simp add: sendItemLink_def updateAuthToken_def writeErrors_def deliveryRejects_def
            Let_def split: option.splits)
  qed
qed

lemma executeGraphQL_healthy:
  "fst (executeGraphQL (exampleCtx [''User'' \<mapsto> people] []) (tokenMutation tt ''1'' tok t))
   = None"
  by (simp add: executeGraphQL_def tokenMutation_def exampleCtx_def Let_def emit_def
        example_defs)

lemma writeErrors_healthy:
  "writeErrors cfg tt ''a@x.com'' people (exampleCtx [''User'' \<mapsto> people] []) = []"
  if "identityField cfg = ''email''"
  using that by (simp add: writeErrors_def find_alice executeGraphQL_healthy alice_def)

lemma writeErrors_nobody:
  "writeErrors cfg tt ''nobody@x.com'' people c = []" if "identityField cfg = ''email''"
  using that by (simp add: writeErrors_def find_nobody)

text \<open>
  Claim C10, as it is stated, fails. Identity protection is enabled, the storage is
  healthy and no write fails, and the configured \<^verbatim>\<open>sendToken\<close> callbacks reject. The
  request for \<open>a@x.com\<close>, which matches one record, calls the callback and the mutation
  fails with what the callback threw; the request for \<open>nobody@x.com\<close>, which matches no
  record, calls nothing and returns the empty payload. The two runs differ only in
  whether the identity exists, and their outcomes differ.
\<close>

theorem send_link_rejecting_callback_counterexample:
  "protectIdentities (rejectingConfig ''User'' True)
   \<and> adapter_find people ''email'' ''a@x.com'' = [alice]
   \<and> adapter_find people ''email'' ''nobody@x.com'' = []
   \<and> writeErrors (rejectingConfig ''User'' True) ''passwordReset'' ''a@x.com'' people
        (exampleCtx [''User'' \<mapsto> people] []) = []
   \<and> writeErrors (rejectingConfig ''User'' True) ''passwordReset'' ''nobody@x.com'' people
        (exampleCtx [''User'' \<mapsto> people] []) = []
   \<and> fst (sendItemPasswordResetLink (rejectingConfig ''User'' True)
            (exampleArgs ''a@x.com'' []) (exampleCtx [''User'' \<mapsto> people] []))
     = Inl SendTokenRejected
   \<and> fst (sendItemPasswordResetLink (rejectingConfig ''User'' True)
            (exampleArgs ''nobody@x.com'' []) (exampleCtx [''User'' \<mapsto> people] []))
     = Inr emptyPayload
   \<and> fst (sendItemMagicAuthLink (rejectingConfig ''User'' True)
            (exampleArgs ''a@x.com'' []) (exampleCtx [''User'' \<mapsto> people] []))
     = Inl SendTokenRejected
   \<and> fst (sendItemMagicAuthLink (rejectingConfig ''User'' True)
            (exampleArgs ''nobody@x.com'' []) (exampleCtx [''User'' \<mapsto> people] []))
     = Inr emptyPayload"
proof -
  let ?cfg = "rejectingConfig ''User'' True"
  let ?c = "exampleCtx [''User'' \<mapsto> people] []"
  have l: "keystone_lists ?c (listKey ?cfg) = Some people"
    by (simp add: exampleCtx_def)
  have p: "protectIdentities ?cfg"
    by simp
  have r: "deliveryRejects (Some (\<lambda>i identity token. Rejects)) ?cfg ''a@x.com'' people ?c"
    by (simp add: deliveryRejects_def find_alice)
  have n: "\<not> deliveryRejects cb ?cfg ''nobody@x.com'' people ?c" for cb
    by (simp add: deliveryRejects_def find_nobody split: option.splits)
  show ?thesis
    by (simp add: sendItemPasswordResetLink_eq sendItemMagicAuthLink_eq
          sendItemLink_protected [OF p l] writeErrors_healthy writeErrors_nobody r n
          find_alice find_nobody)
qed

text \<open>
  Claim C10, amended. With identity protection enabled, the payload of
  \<open>sendItemPasswordResetLink\<close> and of \<open>sendItemMagicAuthLink\<close> is the empty object in
  every run in which no storage write fails and the \<^verbatim>\<open>sendToken\<close> callback does not
  reject, whether the identity matched one record and a token was issued, or matched
  none or several; so two such runs have the same payload, whatever the stored records
  and the identities are. A run whose storage write fails has the payload of
  \<open>AUTH_TOKEN_INTERNAL_ERROR\<close>, and a run whose callback rejects returns no payload: the
  mutation fails.
\<close>

theorem send_link_payload_protected:
  assumes "protectIdentities cfg"
    and "keystone_lists c (listKey cfg) = Some l"
    and "keystone_lists c' (listKey cfg) = Some l'"
  shows "(writeErrors cfg ''passwordReset'' (args (identityField cfg)) l c = []
          \<and> writeErrors cfg ''passwordReset'' (args' (identityField cfg)) l' c' = []
          \<and> \<not> deliveryRejects (passwordResetLink cfg) cfg (args (identityField cfg)) l c
          \<and> \<not> deliveryRejects (passwordResetLink cfg) cfg (args' (identityField cfg)) l' c' \<longrightarrow>
            fst (sendItemPasswordResetLink cfg args c) = Inr emptyPayload
          \<and> fst (sendItemPasswordResetLink cfg args' c') = Inr emptyPayload)
       \<and> (writeErrors cfg ''magicAuth'' (args (identityField cfg)) l c = []
          \<and> writeErrors cfg ''magicAuth'' (args' (identityField cfg)) l' c' = []
          \<and> \<not> deliveryRejects (magicAuthLink cfg) cfg (args (identityField cfg)) l c
          \<and> \<not> deliveryRejects (magicAuthLink cfg) cfg (args' (identityField cfg)) l' c' \<longrightarrow>
            fst (sendItemMagicAuthLink cfg args c) = Inr emptyPayload
          \<and> fst (sendItemMagicAuthLink cfg args' c') = Inr emptyPayload)
       \<and> (writeErrors cfg ''passwordReset'' (args (identityField cfg)) l c \<noteq> [] \<longrightarrow>
            fst (sendItemPasswordResetLink cfg args c) = Inr internalErrorPayload)
       \<and> (writeErrors cfg ''magicAuth'' (args (identityField cfg)) l c \<noteq> [] \<longrightarrow>
            fst (sendItemMagicAuthLink cfg args c) = Inr internalErrorPayload)
       \<and> (writeErrors cfg ''passwordReset'' (args (identityField cfg)) l c = []
          \<and> deliveryRejects (passwordResetLink cfg) cfg (args (identityField cfg)) l c \<longrightarrow>
            fst (sendItemPasswordResetLink cfg args c) = Inl SendTokenRejected)
       \<and> (writeErrors cfg ''magicAuth'' (args (identityField cfg)) l c = []
          \<and> deliveryRejects (magicAuthLink cfg) cfg (args (identityField cfg)) l c \<longrightarrow>
            fst (sendItemMagicAuthLink cfg args c) = Inl SendTokenRejected)"
  by (simp add: sendItemPasswordResetLink_eq sendItemMagicAuthLink_eq
        sendItemLink_protected [OF assms(1) assms(2)]
        sendItemLink_protected [OF assms(1) assms(3)])

theorem send_link_payload_protected_witness:
  "protectIdentities (exampleConfig ''User'' True)
   \<and> keystone_lists (exampleCtx [''User'' \<mapsto> people] []) ''User'' = Some people
   \<and> adapter_find people ''email'' ''a@x.com'' = [alice]
   \<and> adapter_find people ''email'' ''nobody@x.com'' = []
   \<and> fst (sendItemPasswordResetLink (exampleConfig ''User'' True) (exampleArgs ''a@x.com'' [])
            (exampleCtx [''User'' \<mapsto> people] [])) = Inr emptyPayload
   \<and> fst (sendItemPasswordResetLink (exampleConfig ''User'' True)
            (exampleArgs ''nobody@x.com'' []) (exampleCtx [''User'' \<mapsto> people] []))
     = Inr emptyPayload
   \<and> fst (sendItemMagicAuthLink (exampleConfig ''User'' True) (exampleArgs ''a@x.com'' [])
            (exampleCtx [''User'' \<mapsto> people] [])) = Inr emptyPayload
   \<and> fst (sendItemMagicAuthLink (exampleConfig ''User'' True)
            (exampleArgs ''nobody@x.com'' []) (exampleCtx [''User'' \<mapsto> people] []))
     = Inr emptyPayload
   \<and> fst (sendItemPasswordResetLink (exampleConfig ''User'' True) (exampleArgs ''a@x.com'' [])
            brokenCtx) = Inr internalErrorPayload
   \<and> fst (sendItemMagicAuthLink (exampleConfig ''User'' True) (exampleArgs ''a@x.com'' [])
            brokenCtx) = Inr internalErrorPayload
   \<and> protectIdentities (rejectingConfig ''User'' True)
   \<and> fst (sendItemPasswordResetLink (rejectingConfig ''User'' True)
            (exampleArgs ''a@x.com'' []) (exampleCtx [''User'' \<mapsto> people] []))
     = Inl SendTokenRejected
   \<and> fst (sendItemMagicAuthLink (rejectingConfig ''User'' True)
            (exampleArgs ''a@x.com'' []) (exampleCtx [''User'' \<mapsto> people] []))
     = Inl SendTokenRejected"
proof -
  let ?cfg = "exampleConfig ''User'' True"
  let ?rej = "rejectingConfig ''User'' True"
  let ?c = "exampleCtx [''User'' \<mapsto> people] []"
  have p: "protectIdentities ?cfg" and p': "protectIdentities ?rej"
    by simp_all
  have l: "keystone_lists ?c (listKey ?cfg) = Some people"
    and l': "keystone_lists ?c (listKey ?rej) = Some people"
    by (simp_all add: exampleCtx_def)
  have lb: "keystone_lists brokenCtx (listKey ?cfg) = Some people"
    by (simp add: brokenCtx_def exampleCtx_def)
  have w1: "writeErrors ?cfg tt (exampleArgs ''a@x.com'' [] (identityField ?cfg)) people ?c = []"
    "writeErrors ?rej tt (exampleArgs ''a@x.com'' [] (identityField ?rej)) people ?c = []"
    for tt
    by (simp_all add: writeErrors_healthy)
  have w2: "writeErrors ?cfg tt (exampleArgs ''nobody@x.com'' [] (identityField ?cfg)) people ?c = []"
    for tt
    by (simp add: writeErrors_nobody)
  have w3: "writeErrors ?cfg tt (exampleArgs ''a@x.com'' [] (identityField ?cfg)) people brokenCtx
            \<noteq> []" for tt
    by (simp add: writeErrors_def find_alice executeGraphQL_fault brokenCtx_def exampleCtx_def)
  have d1: "\<not> deliveryRejects (Some (\<lambda>i identity token. Resolves)) ?cfg idn people ?c" for idn
    by (simp add: deliveryRejects_def split: list.splits)
  have d2: "deliveryRejects (Some (\<lambda>i identity token. Rejects)) ?rej ''a@x.com'' people ?c"
    by (simp add: deliveryRejects_def find_alice)
  from send_link_payload_protected
         [where cfg = ?cfg and args = "exampleArgs ''a@x.com'' []"
            and args' = "exampleArgs ''nobody@x.com'' []" and c = ?c and c' = ?c, OF p l l]
       send_link_payload_protected
         [where cfg = ?cfg and args = "exampleArgs ''a@x.com'' []"
            and args' = "exampleArgs ''a@x.com'' []" and c = brokenCtx and c' = brokenCtx,
          OF p lb lb]
       send_link_payload_protected
         [where cfg = ?rej and args = "exampleArgs ''a@x.com'' []"
            and args' = "exampleArgs ''a@x.com'' []" and c = ?c and c' = ?c, OF p' l' l']
       w1 w2 w3 d1 d2 l
  show ?thesis
    by (simp add: find_alice find_nobody)
qed

section \<open>The list key of the write and of the session\<close>

lemma updateAuthToken_success:
  assumes "adapter_find l (identityField cfg) identity = [it]"
    and "fst (executeGraphQL c
               (tokenMutation tokenType (item_id it) (generateToken (randomSource c) 20) (now c)))
         = None"
  shows "updateAuthToken cfg tokenType identity l c
         = (TokenSuccess (item_id it) (generateToken (randomSource c) 20),
            snd (executeGraphQL c
                   (tokenMutation tokenType (item_id it) (generateToken (randomSource c) 20)
                      (now c))))"
  using assms by (simp add: updateAuthToken_unique Let_def)

lemma tokenMutation_target:
  "mutationName (tokenMutation tokenType i token t) = ''updateUser''"
  "skipAccessControl (tokenMutation tokenType i token t)"
  "targetId (tokenMutation tokenType i token t) = i"
  by (simp_all add: tokenMutation_def)

lemma authenticateItemWithPassword_success:
  assumes "keystone_lists c (listKey cfg) = Some l"
    and "attemptAuthentication cfg args l (trace c) = (AttemptSuccess it, tr)"
  shows "authenticateItemWithPassword cfg args c
         = (Inr (PasswordSuccess (ItemAuthenticationWithPasswordSuccess cfg)
                   (sessionTokens c ''User'' (item_id it)) it),
            c\<lparr>trace := tr @ [SessionStarted ''User'' (item_id it)]\<rparr>)"
  using assms by (simp add: authenticateItemWithPassword_def startSession_def emit_def)

lemma executeGraphQL_personCtx:
  "executeGraphQL personCtx (tokenMutation ''passwordReset'' ''1'' tok t)
   = (None,
      personCtx
        \<lparr>trace := [GraphQLExecuted (tokenMutation ''passwordReset'' ''1'' tok t)],
         keystone_lists :=
           (keystone_lists personCtx)
             (''User'' \<mapsto>
                exampleList
                  [dave\<lparr>props := props dave
                           @ [(''passwordResetToken'', VStr tok),
                              (''passwordResetIssuedAt'', VTime t),
                              (''passwordResetRedeemedAt'', VNull)]\<rparr>])\<rparr>)"
  by (simp add: executeGraphQL_def tokenMutation_def personCtx_def exampleCtx_def Let_def
        emit_def updateById_def applyData_def exampleList_def dave_def)

text \<open>
  Claim C3, evaluated where the code departs from it. The configured list is \<open>Person\<close>
  and the identity \<open>a@x.com\<close> matches exactly the record \<open>alice\<close> of that list, with id 1.
  The token request succeeds (empty payload, token sent for item 1), but the write is
  the mutation \<open>updateUser\<close>: the records of \<open>Person\<close> are as before, and the token, its
  issue time and the cleared redemption time are on the record with id 1 of the list
  \<open>User\<close>.
\<close>

theorem sendItemPasswordResetLink_writes_to_User:
  "listKey (exampleConfig ''Person'' False) = ''Person''
   \<and> adapter_find people ''email'' ''a@x.com'' = [alice]
   \<and> fst (sendItemPasswordResetLink (exampleConfig ''Person'' False)
            (exampleArgs ''a@x.com'' []) personCtx) = Inr emptyPayload
   \<and> trace (snd (sendItemPasswordResetLink (exampleConfig ''Person'' False)
                   (exampleArgs ''a@x.com'' []) personCtx))
     = [GraphQLExecuted
          (tokenMutation ''passwordReset'' ''1'' ''AAAAAAAAAAAAAAAAAAAA'' 1600000000000),
        TokenSent ''passwordReset'' ''1'' ''a@x.com'' ''AAAAAAAAAAAAAAAAAAAA'']
   \<and> mutationName
        (tokenMutation ''passwordReset'' ''1'' ''AAAAAAAAAAAAAAAAAAAA'' 1600000000000)
     = ''updateUser''
   \<and> keystone_lists (snd (sendItemPasswordResetLink (exampleConfig ''Person'' False)
                            (exampleArgs ''a@x.com'' []) personCtx)) ''Person''
     = Some people
   \<and> keystone_lists (snd (sendItemPasswordResetLink (exampleConfig ''Person'' False)
                            (exampleArgs ''a@x.com'' []) personCtx)) ''User''
     = Some (exampleList
               [dave\<lparr>props := props dave
                        @ [(''passwordResetToken'', VStr ''AAAAAAAAAAAAAAAAAAAA''),
                           (''passwordResetIssuedAt'', VTime 1600000000000),
                           (''passwordResetRedeemedAt'', VNull)]\<rparr>])"
proof -
  have l: "keystone_lists personCtx ''Person'' = Some people"
    by (simp add: personCtx_def exampleCtx_def)
  have v: "item_id alice = ''1''" "randomSource personCtx = (\<lambda>_. 0)"
    "now personCtx = 1600000000000"
    by (simp_all add: alice_def personCtx_def exampleCtx_def)
  have u: "updateAuthToken (exampleConfig ''Person'' False) ''passwordReset'' ''a@x.com''
             people personCtx
           = (TokenSuccess ''1'' ''AAAAAAAAAAAAAAAAAAAA'',
              snd (executeGraphQL personCtx
                     (tokenMutation ''passwordReset'' ''1'' ''AAAAAAAAAAAAAAAAAAAA''
                        1600000000000)))"
    by (subst updateAuthToken_unique [where it = alice])
       (simp_all add: find_alice v generateToken_zero executeGraphQL_personCtx Let_def)
  show ?thesis
    by (simp add: sendItemPasswordResetLink_def l u executeGraphQL_personCtx
          find_alice emit_def emptyPayload_def)
       (simp add: personCtx_def exampleCtx_def tokenMutation_def)
qed

text \<open>
  Claim C4, evaluated where the code departs from it. The configured list is \<open>Person\<close>
  and \<open>alice\<close> authenticates with the right password. The payload is the success payload
  with the matched item and the token of the session that was started, but the session
  was started for the list key \<open>User\<close>, not for \<open>Person\<close>.
\<close>

theorem authenticateItemWithPassword_session_for_User:
  "listKey (exampleConfig ''Person'' False) = ''Person''
   \<and> fst (authenticateItemWithPassword (exampleConfig ''Person'' False)
            (exampleArgs ''a@x.com'' ''correct'') personCtx)
     = Inr (PasswordSuccess ''PersonAuthenticationWithPasswordSuccess'' ''session:User:1'' alice)
   \<and> trace (snd (authenticateItemWithPassword (exampleConfig ''Person'' False)
                   (exampleArgs ''a@x.com'' ''correct'') personCtx))
     = [SecretCompared ''correct'' (Some (VStr ''hash:correct'')),
        SessionStarted ''User'' ''1'']"
proof -
  have l: "keystone_lists personCtx ''Person'' = Some people"
    by (simp add: personCtx_def exampleCtx_def)
  have a: "attemptAuthentication (exampleConfig ''Person'' False)
             (exampleArgs ''a@x.com'' ''correct'') people []
           = (AttemptSuccess alice, [SecretCompared ''correct'' (Some (VStr ''hash:correct''))])"
    by (simp add: attemptAuthentication_def find_alice secret_alice compare_people Let_def)
  have t: "trace personCtx = []"
    by (simp add: personCtx_def exampleCtx_def)
  show ?thesis
    by (simp add: authenticateItemWithPassword_def l a t startSession_def emit_def)
       (simp add: personCtx_def exampleCtx_def exampleConfig_def alice_def)
qed

section \<open>Token redemption\<close>

lemma map_of_setField: "map_of (setField k v ps) k' = (if k' = k then Some v else map_of ps k')"
  by (induction ps) auto

lemma getField_applyData_single:
  "getField (applyData [(k, v)] it) k'
   = (if k' = ''id'' then Some (VStr (item_id it)) else if k' = k then Some v else getField it k')"
  by (simp add: getField_def applyData_def map_of_setField)

lemma field_name_not_id: "tokenType @ ''RedeemedAt'' \<noteq> ''id''"
proof
  assume "tokenType @ ''RedeemedAt'' = ''id''"
  then have "length (tokenType @ ''RedeemedAt'') = length ''id''"
    by (rule arg_cong)
  then show False
    by simp
qed

lemma token_name_not_id: "tokenType @ ''Token'' \<noteq> ''id''"
proof
  assume "tokenType @ ''Token'' = ''id''"
  then have "length (tokenType @ ''Token'') = length ''id''"
    by (rule arg_cong)
  then show False
    by simp
qed

lemma redeemToken_success_fields:
  assumes "redeemToken m tokenType token t it = (RedeemSuccess, it')"
  shows "getField it' (tokenType @ ''Token'') = Some (VStr token)"
    and "getField it' (tokenType @ ''RedeemedAt'') = Some (VTime t)"
proof -
  from assms obtain issued where
    tok: "getField it (tokenType @ ''Token'') = Some (VStr token)"
    and it': "it' = applyData [(tokenType @ ''RedeemedAt'', VTime t)] it"
    by (auto simp: redeemToken_def split: if_splits option.splits fieldval.splits)
  show "getField it' (tokenType @ ''RedeemedAt'') = Some (VTime t)"
    by (simp add: it' getField_applyData_single field_name_not_id)
  show "getField it' (tokenType @ ''Token'') = Some (VStr token)"
    using tok by (simp add: it' getField_applyData_single token_name_not_id)
qed

lemma redeemToken_redeemed:
  assumes "getField it (tokenType @ ''Token'') = Some (VStr token)"
    and "getField it (tokenType @ ''RedeemedAt'') = Some (VTime t)"
  shows "redeemToken m tokenType token' t' it
         = (RedeemFailure (if token' = token then AUTH_TOKEN_REDEMPTION_TOKEN_REDEEMED
                           else AUTH_TOKEN_REDEMPTION_INVALID_TOKEN), it)"
  using assms by (auto simp: redeemToken_def unset_def)

lemma redeemAll_redeemed:
  assumes "getField it (tokenType @ ''Token'') = Some (VStr token)"
    and "getField it (tokenType @ ''RedeemedAt'') = Some (VTime t)"
  shows "redeemAll m tokenType attempts it
         = (map (\<lambda>a. RedeemFailure (if fst a = token then AUTH_TOKEN_REDEMPTION_TOKEN_REDEEMED
                                     else AUTH_TOKEN_REDEMPTION_INVALID_TOKEN)) attempts, it)"
  by (induction attempts) (simp_all add: redeemToken_redeemed [OF assms])

text \<open>
  Claim C9. A successful redemption of a token sets \<^verbatim>\<open>{type}RedeemedAt\<close> of the record
  to the time of the redemption, and from then on every redemption attempt on the record
  fails and leaves it as it is, at whatever times the attempts are made: an attempt with
  the redeemed token fails with \<open>AUTH_TOKEN_REDEMPTION_TOKEN_REDEEMED\<close> (and one with
  any other token with \<open>AUTH_TOKEN_REDEMPTION_INVALID_TOKEN\<close>).
\<close>

theorem redeemed_token_is_single_use:
  assumes "redeemToken m tokenType token t it = (RedeemSuccess, it')"
  shows "getField it' (tokenType @ ''RedeemedAt'') = Some (VTime t)
       \<and> (\<forall>attempts.
            redeemAll m tokenType attempts it'
            = (map (\<lambda>a. RedeemFailure
                          (if fst a = token then AUTH_TOKEN_REDEMPTION_TOKEN_REDEEMED
                           else AUTH_TOKEN_REDEMPTION_INVALID_TOKEN)) attempts, it'))"
  using redeemToken_success_fields [OF assms] by (simp add: redeemAll_redeemed)

lemma aliceWithToken_eq:
  "aliceWithToken
   = \<lparr>item_id = ''1'',
      props = [(''email'', VStr ''a@x.com''), (''password'', VStr ''hash:correct''),
               (''magicAuthToken'', VStr ''AAAAAAAAAAAAAAAAAAAA''),
               (''magicAuthIssuedAt'', VTime 1600000000000),
               (''magicAuthRedeemedAt'', VNull)]\<rparr>"
  by (simp add: aliceWithToken_def tokenMutation_def applyData_def alice_def)

theorem redeemed_token_is_single_use_witness:
  "redeemToken 10 ''magicAuth'' ''AAAAAAAAAAAAAAAAAAAA'' 1600000060000 aliceWithToken
   = (RedeemSuccess,
      applyData [(''magicAuthRedeemedAt'', VTime 1600000060000)] aliceWithToken)
   \<and> getField (applyData [(''magicAuthRedeemedAt'', VTime 1600000060000)] aliceWithToken)
        ''magicAuthRedeemedAt'' = Some (VTime 1600000060000)
   \<and> fst (redeemAll 10 ''magicAuth''
            [(''AAAAAAAAAAAAAAAAAAAA'', 1600000120000), (''BBBB'', 1600000180000),
             (''AAAAAAAAAAAAAAAAAAAA'', 1700000000000)]
            (applyData [(''magicAuthRedeemedAt'', VTime 1600000060000)] aliceWithToken))
     = [RedeemFailure AUTH_TOKEN_REDEMPTION_TOKEN_REDEEMED,
        RedeemFailure AUTH_TOKEN_REDEMPTION_INVALID_TOKEN,
        RedeemFailure AUTH_TOKEN_REDEMPTION_TOKEN_REDEEMED]"
proof -
  let ?it' = "applyData [(''magicAuthRedeemedAt'', VTime 1600000060000)] aliceWithToken"
  let ?attempts = "[(''AAAAAAAAAAAAAAAAAAAA'', 1600000120000), (''BBBB'', 1600000180000),
                    (''AAAAAAAAAAAAAAAAAAAA'', 1700000000000 :: int)]"
  have r: "redeemToken 10 ''magicAuth'' ''AAAAAAAAAAAAAAAAAAAA'' 1600000060000 aliceWithToken
           = (RedeemSuccess, ?it')"
    by (simp add: redeemToken_def aliceWithToken_eq getField_def unset_def)
  note s = redeemed_token_is_single_use [OF r]
  from s have g: "getField ?it' ''magicAuthRedeemedAt'' = Some (VTime 1600000060000)"
    by simp
  from s [THEN conjunct2, THEN spec [where x = ?attempts]]
  have a: "fst (redeemAll 10 ''magicAuth'' ?attempts ?it')
           = [RedeemFailure AUTH_TOKEN_REDEMPTION_TOKEN_REDEEMED,
              RedeemFailure AUTH_TOKEN_REDEMPTION_INVALID_TOKEN,
              RedeemFailure AUTH_TOKEN_REDEMPTION_TOKEN_REDEEMED]"
    by (simp del: redeemAll.simps)
  from r g a show ?thesis
    by (simp del: redeemAll.simps)
qed

end
